theory Spec2Isabelle
  imports Main
begin

section \<open>JavaScript values as the handlers see them\<close>

text \<open>
  The server in \<^verbatim>\<open>src/index.ts\<close> keeps its provider modules, the tool arguments and
  the cache entries at type \<^verbatim>\<open>any\<close>. What flows through the handlers are JSON documents
  (parsed responses of the REST client, the \<^verbatim>\<open>arguments\<close> member of a request) and
  \<^verbatim>\<open>undefined\<close> (an absent member, an absent property). Numbers are modelled as
  integers; a string is a list of code units below 256; an object is the list of its own
  properties in enumeration order (for a key listed twice, the first entry is the one
  read).
\<close>

datatype jsval =
    JUndefined
  | JNull
  | JBool bool
  | JNum int
  | JStr string
  | JArr "jsval list"
  | JObj "(string \<times> jsval) list"

text \<open>Truthiness, as used by \<^verbatim>\<open>if (x)\<close>, \<^verbatim>\<open>!x\<close>, \<^verbatim>\<open>x || d\<close> and \<^verbatim>\<open>x ? a : b\<close>.
  Arrays and objects are truthy also when they are empty.\<close>

fun truthy :: "jsval \<Rightarrow> bool" where
  "truthy JUndefined = False"
| "truthy JNull = False"
| "truthy (JBool b) = b"
| "truthy (JNum n) = (n \<noteq> 0)"
| "truthy (JStr s) = (s \<noteq> [])"
| "truthy (JArr xs) = True"
| "truthy (JObj ps) = True"

subsection \<open>Decimal numerals\<close>

fun show_nat :: "nat \<Rightarrow> string" where
  "show_nat n = (if n < 10 then [''0123456789'' ! n]
                 else show_nat (n div 10) @ [''0123456789'' ! (n mod 10)])"

declare show_nat.simps [simp del]

definition show_int :: "int \<Rightarrow> string" where
  "show_int i = (if i < 0 then CHR ''-'' # show_nat (nat (- i)) else show_nat (nat i))"

subsection \<open>\<^verbatim>\<open>JSON.stringify(v, null, 2)\<close>\<close>

definition nl :: string where
  "nl = [CHR 0x0A]"

definition hex2 :: "nat \<Rightarrow> string" where
  "hex2 k = [''0123456789abcdef'' ! (k div 16), ''0123456789abcdef'' ! (k mod 16)]"

definition quote_char :: "char \<Rightarrow> string" where
  "quote_char c =
     (if c = CHR 0x22 then [CHR 0x5C, CHR 0x22]
      else if c = CHR 0x5C then [CHR 0x5C, CHR 0x5C]
      else if c = CHR 0x08 then [CHR 0x5C, CHR ''b'']
      else if c = CHR 0x0C then [CHR 0x5C, CHR ''f'']
      else if c = CHR 0x0A then [CHR 0x5C, CHR ''n'']
      else if c = CHR 0x0D then [CHR 0x5C, CHR ''r'']
      else if c = CHR 0x09 then [CHR 0x5C, CHR ''t'']
      else if (of_char c :: nat) < 32
        then [CHR 0x5C, CHR ''u'', CHR ''0'', CHR ''0''] @ hex2 (of_char c)
      else [c])"

definition quote :: "string \<Rightarrow> string" where
  "quote s = [CHR 0x22] @ concat (map quote_char s) @ [CHR 0x22]"

fun join_with :: "string \<Rightarrow> string list \<Rightarrow> string" where
  "join_with sep [] = []"
| "join_with sep [x] = x"
| "join_with sep (x # y # ys) = x @ sep @ join_with sep (y # ys)"

definition pad :: "nat \<Rightarrow> string" where
  "pad n = replicate (2 * n) CHR '' ''"

text \<open>The result is \<open>None\<close> where \<^verbatim>\<open>JSON.stringify\<close> returns \<^verbatim>\<open>undefined\<close>. Inside an
  array \<^verbatim>\<open>undefined\<close> is written \<^verbatim>\<open>null\<close>; a property whose value is \<^verbatim>\<open>undefined\<close>
  is left out.\<close>

fun stringify_at :: "nat \<Rightarrow> jsval \<Rightarrow> string option" where
  "stringify_at n JUndefined = None"
| "stringify_at n JNull = Some ''null''"
| "stringify_at n (JBool b) = Some (if b then ''true'' else ''false'')"
| "stringify_at n (JNum i) = Some (show_int i)"
| "stringify_at n (JStr s) = Some (quote s)"
| "stringify_at n (JArr xs) =
     Some (if xs = [] then ''[]''
           else ''['' @ nl
                @ join_with ('','' @ nl)
                    (map (\<lambda>x. pad (Suc n)
                                @ (case stringify_at (Suc n) x of None \<Rightarrow> ''null'' | Some t \<Rightarrow> t)) xs)
                @ nl @ pad n @ '']'')"
| "stringify_at n (JObj ps) =
     (let ms = concat (map (\<lambda>(k, v). case stringify_at (Suc n) v of
                                        None \<Rightarrow> []
                                      | Some t \<Rightarrow> [pad (Suc n) @ quote k @ '': '' @ t]) ps)
      in Some (if ms = [] then ''{}''
               else ''{'' @ nl @ join_with ('','' @ nl) ms @ nl @ pad n @ ''}''))"

definition stringify :: "jsval \<Rightarrow> string option" where
  "stringify v = stringify_at 0 v"

subsection \<open>Template literals, property reads, \<^verbatim>\<open>replace\<close>\<close>

text \<open>\<^verbatim>\<open>`${v}`\<close>: the string conversion of a value.\<close>

fun to_str :: "jsval \<Rightarrow> string" where
  "to_str JUndefined = ''undefined''"
| "to_str JNull = ''null''"
| "to_str (JBool b) = (if b then ''true'' else ''false'')"
| "to_str (JNum i) = show_int i"
| "to_str (JStr s) = s"
| "to_str (JArr xs) =
     join_with '','' (map (\<lambda>x. if x = JUndefined \<or> x = JNull then [] else to_str x) xs)"
| "to_str (JObj ps) = ''[object Object]''"

text \<open>\<^verbatim>\<open>`${JSON.stringify(v, null, 2)}`\<close>\<close>

definition stringify_str :: "jsval \<Rightarrow> string" where
  "stringify_str v = (case stringify v of None \<Rightarrow> ''undefined'' | Some t \<Rightarrow> t)"

text \<open>What the handlers can throw: an \<^verbatim>\<open>McpError\<close> of the protocol SDK, or another
  \<^verbatim>\<open>Error\<close> (a rejected provider call, a \<^verbatim>\<open>TypeError\<close> of the runtime) with its
  message. The SDK's \<^verbatim>\<open>McpError(code, message)\<close> has the message
  \<^verbatim>\<open>`MCP error ${code}: ${message}`\<close>.\<close>

datatype ErrorCode = InvalidRequest | MethodNotFound | InvalidParams | InternalError

fun code_number :: "ErrorCode \<Rightarrow> int" where
  "code_number InvalidRequest = - 32600"
| "code_number MethodNotFound = - 32601"
| "code_number InvalidParams = - 32602"
| "code_number InternalError = - 32603"

datatype thrown = McpError ErrorCode string | Error string

fun message :: "thrown \<Rightarrow> string" where
  "message (McpError c m) = ''MCP error '' @ show_int (code_number c) @ '': '' @ m"
| "message (Error m) = m"

text \<open>\<^verbatim>\<open>v.p\<close> and \<^verbatim>\<open>v[0]\<close> for the property names the handlers read
  (\<^verbatim>\<open>recipient\<close>, \<^verbatim>\<open>message\<close>, \<^verbatim>\<open>from\<close>, \<^verbatim>\<open>to\<close>, \<^verbatim>\<open>callerId\<close>, \<^verbatim>\<open>limit\<close>,
  \<^verbatim>\<open>types\<close>, \<^verbatim>\<open>items\<close>, \<^verbatim>\<open>length\<close>, \<^verbatim>\<open>0\<close>, \<^verbatim>\<open>id\<close>): none of them is inherited
  from a prototype except \<^verbatim>\<open>length\<close> of arrays and strings. Reading a property of
  \<^verbatim>\<open>undefined\<close> or \<^verbatim>\<open>null\<close> throws a \<^verbatim>\<open>TypeError\<close>.\<close>

fun get_prop :: "jsval \<Rightarrow> string \<Rightarrow> thrown + jsval" where
  "get_prop JUndefined p =
     Inl (Error (''Cannot read properties of undefined (reading '' @ [CHR 0x27] @ p @ [CHR 0x27] @ '')''))"
| "get_prop JNull p =
     Inl (Error (''Cannot read properties of null (reading '' @ [CHR 0x27] @ p @ [CHR 0x27] @ '')''))"
| "get_prop (JObj ps) p = Inr (case map_of ps p of None \<Rightarrow> JUndefined | Some v \<Rightarrow> v)"
| "get_prop (JArr xs) p =
     Inr (if p = ''length'' then JNum (int (length xs))
          else if p = ''0'' then (case xs of [] \<Rightarrow> JUndefined | x # _ \<Rightarrow> x)
          else JUndefined)"
| "get_prop (JStr s) p =
     Inr (if p = ''length'' then JNum (int (length s))
          else if p = ''0'' then (case s of [] \<Rightarrow> JUndefined | c # _ \<Rightarrow> JStr [c])
          else JUndefined)"
| "get_prop (JBool b) p = Inr JUndefined"
| "get_prop (JNum n) p = Inr JUndefined"

text \<open>The class \<^verbatim>\<open>\s\<close> of a regular expression, on code units below 256.\<close>

definition is_space :: "char \<Rightarrow> bool" where
  "is_space c = (c \<in> set [CHR 0x09, CHR 0x0A, CHR 0x0B, CHR 0x0C, CHR 0x0D, CHR 0x20, CHR 0xA0])"

text \<open>\<^verbatim>\<open>args.recipient.replace(/\s+/g, '')\<close>: only a string has the method.\<close>

fun replace_whitespace :: "jsval \<Rightarrow> thrown + jsval" where
  "replace_whitespace (JStr s) = Inr (JStr (filter (\<lambda>c. \<not> is_space c) s))"
| "replace_whitespace v = Inl (Error ''args.recipient.replace is not a function'')"

section \<open>The provider and the calls made to it\<close>

text \<open>The sipgate client and its modules are outside the repository. A provider gives,
  for each operation the handlers use, either the message of the \<^verbatim>\<open>Error\<close> the call
  rejects with (\<open>Inl\<close>) or the value it resolves to (\<open>Inr\<close>). Each handler run takes the
  provider as it is at that moment, so a provider whose data changes between two requests
  is two provider values.\<close>

record provider =
  client_get :: "string \<Rightarrow> string + jsval"
  getAuthenticatedWebuserId :: "string + jsval"
  getAllNumbers :: "string + jsval"
  fetchAll :: "jsval \<Rightarrow> string + jsval"
  getDevices :: "jsval \<Rightarrow> string + jsval"
  sms_send :: "jsval \<Rightarrow> string + jsval"
  call_initiate :: "jsval \<Rightarrow> string + jsval"

datatype pcall =
    ClientGet string
  | GetAuthenticatedWebuserId
  | GetAllNumbers
  | FetchAll jsval
  | GetDevices jsval
  | SmsSend jsval
  | CallInitiate jsval

text \<open>A handler body computes a value or throws, and leaves the list of provider calls
  it awaited, each with its outcome, in the order they were made.\<close>

type_synonym trace = "(pcall \<times> (string + jsval)) list"

type_synonym 'a act = "(thrown + 'a) \<times> trace"

definition ret :: "'a \<Rightarrow> 'a act" where
  "ret x = (Inr x, [])"

definition throw :: "thrown \<Rightarrow> 'a act" where
  "throw e = (Inl e, [])"

definition lift :: "thrown + 'a \<Rightarrow> 'a act" where
  "lift r = (r, [])"

definition perform :: "pcall \<Rightarrow> string + jsval \<Rightarrow> jsval act" where
  "perform c r = (case r of Inl m \<Rightarrow> (Inl (Error m), [(c, r)]) | Inr v \<Rightarrow> (Inr v, [(c, r)]))"

definition bnd :: "'a act \<Rightarrow> ('a \<Rightarrow> 'b act) \<Rightarrow> 'b act" where
  "bnd m f = (case m of
                (Inl e, t) \<Rightarrow> (Inl e, t)
              | (Inr x, t) \<Rightarrow> (case f x of (r, t') \<Rightarrow> (r, t @ t')))"

definition try_catch :: "'a act \<Rightarrow> (thrown \<Rightarrow> 'a act) \<Rightarrow> 'a act" where
  "try_catch m h = (case m of
                      (Inl e, t) \<Rightarrow> (case h e of (r, t') \<Rightarrow> (r, t @ t'))
                    | (Inr x, t) \<Rightarrow> (Inr x, t))"

section \<open>The resource handlers\<close>

text \<open>One entry of \<^verbatim>\<open>contents\<close>: \<^verbatim>\<open>{uri, mimeType, text}\<close>. The text is \<open>None\<close> where
  \<^verbatim>\<open>JSON.stringify\<close> gave \<^verbatim>\<open>undefined\<close>.\<close>

datatype resource_content = ResourceContent string string "string option"

definition resource_uris :: "string list" where
  "resource_uris = [''sipgate://account'', ''sipgate://numbers'', ''sipgate://history'',
                    ''sipgate://devices'']"

text \<open>\<^verbatim>\<open>cachedResources\<close> is a plain object created as \<^verbatim>\<open>{}\<close>: its own properties are
  the entries stored by the handler, and \<^verbatim>\<open>cachedResources[uri]\<close> also finds the members
  it inherits from \<^verbatim>\<open>Object.prototype\<close> (functions, and the prototype object itself
  under \<^verbatim>\<open>__proto__\<close>).\<close>

type_synonym cachedResources = "string \<rightharpoonup> jsval"

definition object_prototype_members :: "string list" where
  "object_prototype_members =
     [''constructor'', ''__defineGetter__'', ''__defineSetter__'', ''hasOwnProperty'',
      ''__lookupGetter__'', ''__lookupSetter__'', ''isPrototypeOf'', ''propertyIsEnumerable'',
      ''toString'', ''valueOf'', ''__proto__'', ''toLocaleString'']"

datatype slot = Own jsval | Inherited string | Absent

definition cache_read :: "cachedResources \<Rightarrow> string \<Rightarrow> slot" where
  "cache_read c uri =
     (case c uri of
        Some v \<Rightarrow> Own v
      | None \<Rightarrow> if uri \<in> set object_prototype_members then Inherited uri else Absent)"

fun slot_truthy :: "slot \<Rightarrow> bool" where
  "slot_truthy (Own v) = truthy v"
| "slot_truthy (Inherited k) = True"
| "slot_truthy Absent = False"

fun slot_stringify :: "slot \<Rightarrow> string option" where
  "slot_stringify (Own v) = stringify v"
| "slot_stringify (Inherited k) = (if k = ''__proto__'' then Some ''{}'' else None)"
| "slot_stringify Absent = None"

text \<open>The body of the \<^verbatim>\<open>try\<close> block up to the assignment of \<^verbatim>\<open>data\<close>.\<close>

definition fetch_resource :: "provider \<Rightarrow> string \<Rightarrow> jsval act" where
  "fetch_resource P uri =
     (if uri = ''sipgate://account'' then
        perform (ClientGet ''/account'') (client_get P ''/account'')
      else if uri = ''sipgate://numbers'' then
        perform GetAllNumbers (getAllNumbers P)
      else if uri = ''sipgate://history'' then
        perform (FetchAll (JObj [(''limit'', JNum 20)])) (fetchAll P (JObj [(''limit'', JNum 20)]))
      else if uri = ''sipgate://devices'' then
        bnd (perform GetAuthenticatedWebuserId (getAuthenticatedWebuserId P)) (\<lambda>webuserId.
          perform (GetDevices webuserId) (getDevices P webuserId))
      else
        throw (McpError InvalidRequest (''Invalid URI: '' @ uri)))"

text \<open>The \<^verbatim>\<open>ReadResourceRequestSchema\<close> handler: the result or the error thrown to the
  protocol layer, the provider calls made, and the cache afterwards.\<close>

definition readResource ::
  "provider \<Rightarrow> string \<Rightarrow> cachedResources
     \<Rightarrow> (thrown + resource_content list) \<times> trace \<times> cachedResources" where
  "readResource P uri c =
     (if slot_truthy (cache_read c uri) then
        (Inr [ResourceContent uri ''application/json'' (slot_stringify (cache_read c uri))], [], c)
      else
        (case fetch_resource P uri of
           (Inr data, t) \<Rightarrow>
             (Inr [ResourceContent uri ''application/json'' (stringify data)], t, c(uri \<mapsto> data))
         | (Inl error, t) \<Rightarrow>
             (Inl (McpError InternalError (''Sipgate API error: '' @ message error)), t, c)))"

section \<open>Reads that overlap\<close>

text \<open>The handler is an \<^verbatim>\<open>async\<close> function: it tests the cache when the request
  arrives, then waits for the provider at each \<^verbatim>\<open>await\<close>, and stores and answers only
  when the last awaited call has settled. While it waits, other requests run. The server
  is therefore a state machine over two kinds of events: a read request arrives; the
  provider call a pending read waits for settles, with the value or the error message the
  provider has at that moment. \<open>readResource\<close> above is a read whose provider calls settle
  before anything else happens (\<open>serve\<close>, lemma \<open>serve_is_readResource\<close>).\<close>

datatype pending = Pending (p_uri: string) (p_call: pcall)

datatype event = Request nat string | Settle nat "string + jsval"

record server =
  cachedResources :: cachedResources
  inflight :: "(nat \<times> pending) list"

text \<open>The first provider call of the \<^verbatim>\<open>try\<close> block, or the error of its last branch.\<close>

definition first_call :: "string \<Rightarrow> thrown + pcall" where
  "first_call uri =
     (if uri = ''sipgate://account'' then Inr (ClientGet ''/account'')
      else if uri = ''sipgate://numbers'' then Inr GetAllNumbers
      else if uri = ''sipgate://history'' then Inr (FetchAll (JObj [(''limit'', JNum 20)]))
      else if uri = ''sipgate://devices'' then Inr GetAuthenticatedWebuserId
      else Inl (McpError InvalidRequest (''Invalid URI: '' @ uri)))"

text \<open>One event: the answer sent (with the id of its request), the provider calls issued,
  and the server afterwards. A request that hits the cache, or names an unknown uri, is
  answered at once; any other is kept as pending under its id, with the call it waits
  for (ids of requests in flight are distinct in the protocol; a request that reuses one
  takes its place). When the awaited call rejects, the read is answered with the error
  of the \<^verbatim>\<open>catch\<close> block. When it resolves, the read stores the value and answers,
  except a read of the devices whose user id has just resolved: that one asks for the
  devices of the user and waits again. A settled call that no pending read waits for
  changes nothing.\<close>

fun step ::
  "event \<Rightarrow> server
     \<Rightarrow> (nat \<times> (thrown + resource_content list)) option \<times> pcall list \<times> server" where
  "step (Request i uri) s =
     (if slot_truthy (cache_read (cachedResources s) uri) then
        (Some (i, Inr [ResourceContent uri ''application/json''
                         (slot_stringify (cache_read (cachedResources s) uri))]), [], s)
      else
        (case first_call uri of
           Inl error \<Rightarrow>
             (Some (i, Inl (McpError InternalError (''Sipgate API error: '' @ message error))),
              [], s)
         | Inr c \<Rightarrow>
             (None, [c],
              s\<lparr>inflight := (i, Pending uri c) # filter (\<lambda>e. fst e \<noteq> i) (inflight s)\<rparr>)))"
| "step (Settle i r) s =
     (case map_of (inflight s) i of
        None \<Rightarrow> (None, [], s)
      | Some p \<Rightarrow>
          (case r of
             Inl m \<Rightarrow>
               (Some (i, Inl (McpError InternalError (''Sipgate API error: '' @ m))), [],
                s\<lparr>inflight := filter (\<lambda>e. fst e \<noteq> i) (inflight s)\<rparr>)
           | Inr v \<Rightarrow>
               if p_call p = GetAuthenticatedWebuserId then
                 (None, [GetDevices v],
                  s\<lparr>inflight := (i, Pending (p_uri p) (GetDevices v))
                                   # filter (\<lambda>e. fst e \<noteq> i) (inflight s)\<rparr>)
               else
                 (Some (i, Inr [ResourceContent (p_uri p) ''application/json'' (stringify v)]), [],
                  s\<lparr>cachedResources := (cachedResources s)(p_uri p \<mapsto> v),
                    inflight := filter (\<lambda>e. fst e \<noteq> i) (inflight s)\<rparr>)))"

fun run :: "event list \<Rightarrow> server \<Rightarrow> server" where
  "run [] s = s"
| "run (e # es) s = run es (snd (snd (step e s)))"

text \<open>The server after start-up: nothing cached, nothing pending.\<close>

definition idle :: server where
  "idle = \<lparr>cachedResources = Map.empty, inflight = []\<rparr>"

text \<open>No pending read is a read of the uri.\<close>

definition no_read_in_flight :: "string \<Rightarrow> server \<Rightarrow> bool" where
  "no_read_in_flight uri s = list_all (\<lambda>e. p_uri (snd e) \<noteq> uri) (inflight s)"

text \<open>A JSON object or array: what the provider operations behind the four resources
  resolve to.\<close>

fun is_document :: "jsval \<Rightarrow> bool" where
  "is_document (JObj ps) = True"
| "is_document (JArr xs) = True"
| "is_document v = False"

text \<open>What a provider answers to a call.\<close>

fun answer :: "provider \<Rightarrow> pcall \<Rightarrow> string + jsval" where
  "answer P (ClientGet path) = client_get P path"
| "answer P GetAuthenticatedWebuserId = getAuthenticatedWebuserId P"
| "answer P GetAllNumbers = getAllNumbers P"
| "answer P (FetchAll f) = fetchAll P f"
| "answer P (GetDevices w) = getDevices P w"
| "answer P (SmsSend d) = sms_send P d"
| "answer P (CallInitiate d) = call_initiate P d"

text \<open>A read served without interruption: each call it issues settles at once, with the
  answer of the provider \<open>P\<close> (a read issues at most two calls).\<close>

fun settle_all ::
  "nat \<Rightarrow> provider \<Rightarrow> nat \<Rightarrow> pcall list \<Rightarrow> server
     \<Rightarrow> (nat \<times> (thrown + resource_content list)) option \<times> trace \<times> server" where
  "settle_all 0 P i cs s = (None, [], s)"
| "settle_all (Suc n) P i [] s = (None, [], s)"
| "settle_all (Suc n) P i (c # cs) s =
     (case step (Settle i (answer P c)) s of
        (Some r, cs', s') \<Rightarrow> (Some r, [(c, answer P c)], s')
      | (None, cs', s') \<Rightarrow>
          (case settle_all n P i cs' s' of (r, t, s'') \<Rightarrow> (r, (c, answer P c) # t, s'')))"

definition serve ::
  "provider \<Rightarrow> nat \<Rightarrow> string \<Rightarrow> server
     \<Rightarrow> (nat \<times> (thrown + resource_content list)) option \<times> trace \<times> server" where
  "serve P i uri s =
     (case step (Request i uri) s of
        (Some r, cs, s') \<Rightarrow> (Some r, [], s')
      | (None, cs, s') \<Rightarrow> settle_all 2 P i cs s')"

section \<open>The tool handler\<close>

datatype content_item = TextContent "string option"

record envelope =
  content :: "content_item list"
  isError :: "bool option"

text \<open>\<^verbatim>\<open>{content: [{type: "text", text: t}]}\<close> and the same with \<^verbatim>\<open>isError: true\<close>.\<close>

definition text_result :: "string option \<Rightarrow> envelope" where
  "text_result t = \<lparr>content = [TextContent t], isError = None\<rparr>"

definition error_result :: "string \<Rightarrow> envelope" where
  "error_result t = \<lparr>content = [TextContent (Some t)], isError = Some True\<rparr>"

definition get_account_info :: "provider \<Rightarrow> envelope act" where
  "get_account_info P =
     try_catch
       (bnd (perform (ClientGet ''/account'') (client_get P ''/account'')) (\<lambda>response.
          ret (text_result (stringify response))))
       (\<lambda>error. throw (McpError InternalError (''Error getting account info: '' @ message error)))"

definition get_phone_numbers :: "provider \<Rightarrow> envelope act" where
  "get_phone_numbers P =
     try_catch
       (bnd (perform GetAllNumbers (getAllNumbers P)) (\<lambda>numbers.
          ret (text_result (if truthy numbers then stringify numbers
                            else Some ''No phone numbers available''))))
       (\<lambda>error. throw (McpError InternalError (''Error getting phone numbers: '' @ message error)))"

definition debugInfo :: "jsval \<Rightarrow> jsval \<Rightarrow> string" where
  "debugInfo webuserId smsExtension =
     ''Debug Info:'' @ nl @ ''Web User ID: '' @ to_str webuserId @ nl
       @ ''Using SMS Extension: '' @ stringify_str smsExtension"

definition send_sms :: "provider \<Rightarrow> jsval \<Rightarrow> envelope act" where
  "send_sms P args =
     try_catch
       (bnd (lift (get_prop args ''recipient'')) (\<lambda>recipient.
        bnd (lift (get_prop args ''message'')) (\<lambda>msg.
        if \<not> truthy recipient \<or> \<not> truthy msg then
          throw (McpError InvalidParams
                   ''Missing required parameters: recipient and message are required'')
        else
        bnd (perform GetAuthenticatedWebuserId (getAuthenticatedWebuserId P)) (\<lambda>webuserId.
        bnd (perform (ClientGet (''/'' @ to_str webuserId @ ''/sms''))
                     (client_get P (''/'' @ to_str webuserId @ ''/sms''))) (\<lambda>extensionsResponse.
        bnd (lift (get_prop extensionsResponse ''items'')) (\<lambda>items.
        bnd (ret (if truthy items then items else JArr [])) (\<lambda>smsExtensions.
        bnd (lift (get_prop smsExtensions ''length'')) (\<lambda>len.
        if len = JNum 0 then
          throw (McpError InternalError ''No SMS extensions available for this account'')
        else
        bnd (lift (get_prop smsExtensions ''0'')) (\<lambda>smsExtension.
        bnd (lift (get_prop smsExtension ''id'')) (\<lambda>extensionId.
        bnd (lift (replace_whitespace recipient)) (\<lambda>stripped.
        bnd (ret (JObj [(''smsId'', extensionId), (''to'', stripped), (''message'', msg)])) (\<lambda>smsData.
        try_catch
          (bnd (perform (SmsSend smsData) (sms_send P smsData)) (\<lambda>sent.
             ret (text_result (Some (debugInfo webuserId smsExtension @ nl @ nl
                                     @ ''SMS sent successfully to '' @ to_str recipient)))))
          (\<lambda>smsError.
             ret (error_result (debugInfo webuserId smsExtension @ nl @ nl
                                @ ''SMS Error: '' @ message smsError)))))))))))))))
       (\<lambda>error. throw (McpError InternalError (''SMS sending failed: '' @ message error)))"

definition initiate_call :: "provider \<Rightarrow> jsval \<Rightarrow> envelope act" where
  "initiate_call P args =
     bnd (lift (get_prop args ''from'')) (\<lambda>from.
     bnd (lift (get_prop args ''to'')) (\<lambda>to.
     if \<not> truthy from \<or> \<not> truthy to then
       throw (McpError InvalidParams ''Missing required parameters: from and to are required'')
     else
     bnd (lift (get_prop args ''callerId'')) (\<lambda>callerId.
     bnd (ret (JObj ([(''from'', from), (''to'', to)]
                     @ (if truthy callerId then [(''callerId'', callerId)] else [])))) (\<lambda>callData.
     bnd (perform (CallInitiate callData) (call_initiate P callData)) (\<lambda>started.
       ret (text_result (Some (''Call initiated from '' @ to_str from @ '' to '' @ to_str to))))))))"

definition default_types :: jsval where
  "default_types = JArr [JStr ''CALL'', JStr ''VOICEMAIL'', JStr ''FAX'', JStr ''SMS'']"

definition get_call_history :: "provider \<Rightarrow> jsval \<Rightarrow> envelope act" where
  "get_call_history P args =
     bnd (lift (get_prop args ''limit'')) (\<lambda>l.
     bnd (ret (if truthy l then l else JNum 10)) (\<lambda>limit.
     bnd (lift (get_prop args ''types'')) (\<lambda>ts.
     bnd (ret (if truthy ts then ts else default_types)) (\<lambda>types.
     bnd (ret (JObj [(''limit'', limit), (''types'', types)])) (\<lambda>historyFilter.
     bnd (perform (FetchAll historyFilter) (fetchAll P historyFilter)) (\<lambda>history.
       ret (text_result (if truthy history then stringify history
                         else Some ''No call history available''))))))))"

definition get_user_info :: "provider \<Rightarrow> envelope act" where
  "get_user_info P =
     bnd (perform GetAuthenticatedWebuserId (getAuthenticatedWebuserId P)) (\<lambda>webuserId.
     bnd (perform (ClientGet (''/users/'' @ to_str webuserId))
                  (client_get P (''/users/'' @ to_str webuserId))) (\<lambda>response.
       ret (text_result (stringify response))))"

definition get_devices :: "provider \<Rightarrow> envelope act" where
  "get_devices P =
     bnd (perform GetAuthenticatedWebuserId (getAuthenticatedWebuserId P)) (\<lambda>webuserId.
     bnd (perform (GetDevices webuserId) (getDevices P webuserId)) (\<lambda>devices.
       ret (text_result (if truthy devices then stringify devices
                         else Some ''No devices available''))))"

text \<open>The \<^verbatim>\<open>switch\<close> on the tool name, inside the outer \<^verbatim>\<open>try\<close>.\<close>

definition tool_switch :: "provider \<Rightarrow> string \<Rightarrow> jsval \<Rightarrow> envelope act" where
  "tool_switch P name args =
     (if name = ''get_account_info'' then get_account_info P
      else if name = ''get_phone_numbers'' then get_phone_numbers P
      else if name = ''send_sms'' then send_sms P args
      else if name = ''initiate_call'' then initiate_call P args
      else if name = ''get_call_history'' then get_call_history P args
      else if name = ''get_user_info'' then get_user_info P
      else if name = ''get_devices'' then get_devices P
      else throw (McpError MethodNotFound (''Unknown tool: '' @ name)))"

text \<open>The \<^verbatim>\<open>CallToolRequestSchema\<close> handler: the switch and the outer \<^verbatim>\<open>catch\<close>. An
  \<open>Inl\<close> result would be an exception reaching the protocol layer.\<close>

definition callTool :: "provider \<Rightarrow> string \<Rightarrow> jsval \<Rightarrow> envelope act" where
  "callTool P name args =
     try_catch (tool_switch P name args)
       (\<lambda>error. ret (error_result (''Sipgate API error: '' @ message error)))"

text \<open>The \<^verbatim>\<open>ListToolsRequestSchema\<close> handler, reduced to what the claims use: each tool's
  name with the \<^verbatim>\<open>required\<close> list of its \<^verbatim>\<open>inputSchema\<close>.\<close>

definition tool_descriptors :: "(string \<times> string list) list" where
  "tool_descriptors =
     [(''get_account_info'', []),
      (''get_phone_numbers'', []),
      (''send_sms'', [''smsId'', ''recipient'', ''message'']),
      (''initiate_call'', [''from'', ''to'']),
      (''get_call_history'', []),
      (''get_user_info'', []),
      (''get_devices'', [])]"

definition required_arguments :: "string \<Rightarrow> string list" where
  "required_arguments name = (case map_of tool_descriptors name of None \<Rightarrow> [] | Some r \<Rightarrow> r)"

section \<open>Providers used as examples\<close>

text \<open>A provider that answers every call: user \<^verbatim>\<open>w0\<close> with the SMS extensions
  \<^verbatim>\<open>s0\<close>, \<^verbatim>\<open>s1\<close> in this order, one history entry, one device.\<close>

definition provider_up :: provider where
  "provider_up =
     \<lparr>client_get = (\<lambda>path.
         if path = ''/account'' then Inr (JObj [(''company'', JStr ''sipgate'')])
         else if path = ''/w0/sms''
           then Inr (JObj [(''items'', JArr [JObj [(''id'', JStr ''s0'')], JObj [(''id'', JStr ''s1'')]])])
         else Inr (JObj [])),
       getAuthenticatedWebuserId = Inr (JStr ''w0''),
       getAllNumbers = Inr (JObj [(''items'', JArr [JObj [(''number'', JStr ''+4921112345'')]])]),
       fetchAll = (\<lambda>f. Inr (JArr [JObj [(''type'', JStr ''CALL'')]])),
       getDevices = (\<lambda>w. Inr (JArr [JObj [(''id'', JStr ''e0'')]])),
       sms_send = (\<lambda>d. Inr JUndefined),
       call_initiate = (\<lambda>d. Inr (JObj []))\<rparr>"

text \<open>The same account with nothing in it: every collection is the empty array.\<close>

definition provider_empty :: provider where
  "provider_empty =
     \<lparr>client_get = (\<lambda>path.
         if path = ''/w0/sms'' then Inr (JObj [(''items'', JArr [])]) else Inr (JObj [])),
       getAuthenticatedWebuserId = Inr (JStr ''w0''),
       getAllNumbers = Inr (JArr []),
       fetchAll = (\<lambda>f. Inr (JArr [])),
       getDevices = (\<lambda>w. Inr (JArr [])),
       sms_send = (\<lambda>d. Inr JUndefined),
       call_initiate = (\<lambda>d. Inr (JObj []))\<rparr>"

text \<open>A provider that cannot be reached: every call rejects.\<close>

definition provider_down :: provider where
  "provider_down =
     \<lparr>client_get = (\<lambda>path. Inl ''Network Error''),
       getAuthenticatedWebuserId = Inl ''Network Error'',
       getAllNumbers = Inl ''Network Error'',
       fetchAll = (\<lambda>f. Inl ''Network Error''),
       getDevices = (\<lambda>w. Inl ''Network Error''),
       sms_send = (\<lambda>d. Inl ''Network Error''),
       call_initiate = (\<lambda>d. Inl ''Network Error'')\<rparr>"

section \<open>Predicates for the proofs\<close>

text \<open>A trace is failed when one of its provider calls rejected. A handler body
  \<open>reports\<close> failures when it cannot return a value after a rejected call unless that
  value is \<open>good\<close>; \<open>error_shaped\<close> is the envelope with \<^verbatim>\<open>isError: true\<close> and one
  non-empty text.\<close>

definition failed :: "trace \<Rightarrow> bool" where
  "failed t = (\<exists>c m. (c, Inl m) \<in> set t)"



text \<open>Everything cached or pending belongs to one of the four resource uris.\<close>

definition known_only :: "server \<Rightarrow> bool" where
  "known_only s = (dom (cachedResources s) \<subseteq> set resource_uris
                   \<and> list_all (\<lambda>e. p_uri (snd e) \<in> set resource_uris) (inflight s))"

section \<open>Basic facts\<close>

lemma show_int_codes:
  "show_int (- 32600) = ''-32600''" "show_int (- 32601) = ''-32601''"
  "show_int (- 32602) = ''-32602''" "show_int (- 32603) = ''-32603''"
  by (simp_all add: show_int_def show_nat.simps)

lemma pad_Suc: "pad 0 = []" "pad (Suc n) = ''  '' @ pad n"
  by (simp_all add: pad_def)

lemma stringify_empty_array: "stringify (JArr []) = Some ''[]''"
  by (simp add: stringify_def)

lemma fst_ret: "fst (ret x) = Inr x" and snd_ret: "snd (ret x) = []"
  by (simp_all add: ret_def)

lemma fst_throw: "fst (throw e) = Inl e" and snd_throw: "snd (throw e) = []"
  by (simp_all add: throw_def)

lemma ret_eq: "(ret x = (r, t)) = (r = Inr x \<and> t = [])"
  by (auto simp: ret_def)

lemma throw_eq: "(throw e = (r, t)) = (r = Inl e \<and> t = [])"
  by (auto simp: throw_def)

lemma bnd_ret: "bnd (ret x) f = f x"
  by (cases "f x") (simp add: bnd_def ret_def)

lemma bnd_throw: "bnd (throw e) f = throw e"
  by (simp add: bnd_def throw_def)

lemma bnd_lift_Inr: "bnd (lift (Inr x)) f = f x"
  by (cases "f x") (simp add: bnd_def lift_def)

lemma bnd_lift_Inl: "bnd (lift (Inl e)) f = throw e"
  by (simp add: bnd_def lift_def throw_def)

lemma bnd_perform_Inr: "bnd (perform c (Inr v)) f = (fst (f v), (c, Inr v) # snd (f v))"
  by (cases "f v") (simp add: bnd_def perform_def)

lemma bnd_perform_Inl: "bnd (perform c (Inl m)) f = (Inl (Error m), [(c, Inl m)])"
  by (simp add: bnd_def perform_def)

lemma try_catch_ret: "try_catch (ret x) h = ret x"
  by (simp add: try_catch_def ret_def)

lemma try_catch_throw: "try_catch (throw e) h = h e"
  by (cases "h e") (simp add: try_catch_def throw_def)

lemma try_catch_Inr: "try_catch (Inr x, t) h = (Inr x, t)"
  by (simp add: try_catch_def)

lemma try_catch_Inl: "try_catch (Inl e, t) h = (fst (h e), t @ snd (h e))"
  by (cases "h e") (simp add: try_catch_def)

lemmas act_simps =
  bnd_ret bnd_throw bnd_lift_Inr bnd_lift_Inl bnd_perform_Inr bnd_perform_Inl
  try_catch_ret try_catch_throw try_catch_Inr try_catch_Inl
  fst_ret snd_ret fst_throw snd_throw ret_eq throw_eq

text \<open>The outer \<^verbatim>\<open>catch\<close> makes no provider call: the calls of a tool invocation are
  those of the switch.\<close>

lemma callTool_trace: "snd (callTool P name args) = snd (tool_switch P name args)"
proof (cases "tool_switch P name args")
  case (Pair r t)
  then show ?thesis
    by (cases r) (simp_all add: callTool_def try_catch_def ret_def)
qed

subsection \<open>A rejected provider call ends the handler body\<close>





















section \<open>The tool dispatcher's error boundary\<close>



text \<open>The single provider failure that does not throw: a rejected \<^verbatim>\<open>smsModule.send\<close>
  is answered by the inner \<^verbatim>\<open>catch\<close> of \<^verbatim>\<open>send_sms\<close>.\<close>

lemma send_sms_rejected:
  "callTool (provider_up\<lparr>sms_send := \<lambda>d. Inl ''Forbidden''\<rparr>) ''send_sms''
      (JObj [(''smsId'', JStr ''s0''), (''recipient'', JStr ''+4915123456789''),
             (''message'', JStr ''hi'')]) =
     (Inr (error_result (debugInfo (JStr ''w0'') (JObj [(''id'', JStr ''s0'')]) @ nl @ nl
                         @ ''SMS Error: Forbidden'')),
      [(GetAuthenticatedWebuserId, Inr (JStr ''w0'')),
       (ClientGet ''/w0/sms'',
        Inr (JObj [(''items'', JArr [JObj [(''id'', JStr ''s0'')], JObj [(''id'', JStr ''s1'')]])])),
       (SmsSend (JObj [(''smsId'', JStr ''s0''), (''to'', JStr ''+4915123456789''),
                       (''message'', JStr ''hi'')]),
        Inl ''Forbidden'')])"
  by (simp add: callTool_def tool_switch_def send_sms_def provider_up_def act_simps is_space_def)

section \<open>Malformed tool calls\<close>

text \<open>The \<^verbatim>\<open>throw\<close> statements for an unknown tool name and for missing arguments stand
  inside the outer \<^verbatim>\<open>try\<close>, so their \<^verbatim>\<open>McpError\<close> is caught like any other exception:
  the caller gets an envelope whose text quotes the error, and no provider call is made.\<close>

lemma unknown_tool:
  assumes "name \<notin> set (map fst tool_descriptors)"
  shows "callTool P name args =
           (Inr (error_result (''Sipgate API error: MCP error -32601: Unknown tool: '' @ name)), [])"
  using assms
  by (simp add: callTool_def tool_switch_def tool_descriptors_def act_simps show_int_codes)

lemma initiate_call_missing_argument:
  assumes "get_prop args ''from'' = Inr f" and "get_prop args ''to'' = Inr t"
      and "\<not> (truthy f \<and> truthy t)"
  shows "callTool P ''initiate_call'' args =
           (Inr (error_result
                   ''Sipgate API error: MCP error -32602: Missing required parameters: from and to are required''),
            [])"
  using assms
  by (auto simp: callTool_def tool_switch_def initiate_call_def act_simps show_int_codes)

lemma send_sms_missing_argument:
  assumes "get_prop args ''recipient'' = Inr r" and "get_prop args ''message'' = Inr m"
      and "\<not> (truthy r \<and> truthy m)"
  shows "callTool P ''send_sms'' args =
           (Inr (error_result
                   ''Sipgate API error: MCP error -32603: SMS sending failed: MCP error -32602: Missing required parameters: recipient and message are required''),
            [])"
  using assms
  by (auto simp: callTool_def tool_switch_def send_sms_def act_simps show_int_codes)

text \<open>
  Claim C2. For every malformed tool call (an unknown tool name, or a known tool with a
  required argument missing) the dispatcher raises a protocol-level error
  (\<^verbatim>\<open>MethodNotFound\<close>, \<^verbatim>\<open>InvalidParams\<close>) rather than returning an \<^verbatim>\<open>isError\<close> envelope,
  before any provider call.

  The handler does not raise. Evaluated at the tool name \<^verbatim>\<open>no_such_tool\<close>, and at
  \<^verbatim>\<open>initiate_call\<close> with \<^verbatim>\<open>to\<close> left out, the result is a returned envelope with
  \<^verbatim>\<open>isError: true\<close> that quotes the \<^verbatim>\<open>McpError\<close>; only the absence of provider calls is
  as claimed.
\<close>

theorem malformed_call_returns_envelope:
  "callTool P ''no_such_tool'' args =
     (Inr (error_result ''Sipgate API error: MCP error -32601: Unknown tool: no_such_tool''), [])
   \<and> callTool P ''initiate_call'' (JObj [(''from'', JStr ''e0'')]) =
     (Inr (error_result
             ''Sipgate API error: MCP error -32602: Missing required parameters: from and to are required''),
      [])"
  by (simp add: unknown_tool tool_descriptors_def initiate_call_missing_argument)

text \<open>
  Claim C6. For every tool and every argument its descriptor declares required
  (including \<^verbatim>\<open>smsId\<close> of \<^verbatim>\<open>send_sms\<close>), a call without that argument fails with
  \<^verbatim>\<open>InvalidParams\<close> and the provider is never invoked.

  The descriptor of \<^verbatim>\<open>send_sms\<close> lists \<^verbatim>\<open>smsId\<close> as required, the handler checks
  \<^verbatim>\<open>recipient\<close> and \<^verbatim>\<open>message\<close> only. Evaluated at a call without \<^verbatim>\<open>smsId\<close>: the
  provider is called three times, the message is sent, and the envelope reports success.
\<close>

theorem send_sms_without_smsId_is_sent:
  "''smsId'' \<in> set (required_arguments ''send_sms'')
   \<and> get_prop (JObj [(''recipient'', JStr ''+4915123456789''), (''message'', JStr ''hi'')]) ''smsId''
       = Inr JUndefined
   \<and> callTool provider_up ''send_sms''
        (JObj [(''recipient'', JStr ''+4915123456789''), (''message'', JStr ''hi'')]) =
      (Inr (text_result (Some (debugInfo (JStr ''w0'') (JObj [(''id'', JStr ''s0'')]) @ nl @ nl
                               @ ''SMS sent successfully to +4915123456789''))),
       [(GetAuthenticatedWebuserId, Inr (JStr ''w0'')),
        (ClientGet ''/w0/sms'',
         Inr (JObj [(''items'', JArr [JObj [(''id'', JStr ''s0'')], JObj [(''id'', JStr ''s1'')]])])),
        (SmsSend (JObj [(''smsId'', JStr ''s0''), (''to'', JStr ''+4915123456789''),
                        (''message'', JStr ''hi'')]),
         Inr JUndefined)])"
  by (simp add: required_arguments_def tool_descriptors_def callTool_def tool_switch_def
        send_sms_def provider_up_def act_simps is_space_def)

section \<open>Empty collections\<close>

text \<open>The fallback texts are chosen by truthiness, so they are returned for an absent
  result (\<^verbatim>\<open>undefined\<close>, \<^verbatim>\<open>null\<close>) and for the other falsy values.\<close>

lemma get_phone_numbers_absent:
  assumes "getAllNumbers P = Inr numbers" and "\<not> truthy numbers"
  shows "fst (callTool P ''get_phone_numbers'' args)
           = Inr (text_result (Some ''No phone numbers available''))"
  using assms by (simp add: callTool_def tool_switch_def get_phone_numbers_def act_simps)

lemma get_call_history_absent:
  assumes "get_prop args ''limit'' = Inr l" and "get_prop args ''types'' = Inr ts"
      and "fetchAll P (JObj [(''limit'', if truthy l then l else JNum 10),
                             (''types'', if truthy ts then ts else default_types)]) = Inr history"
      and "\<not> truthy history"
  shows "fst (callTool P ''get_call_history'' args)
           = Inr (text_result (Some ''No call history available''))"
  using assms by (simp add: callTool_def tool_switch_def get_call_history_def act_simps)

lemma get_devices_absent:
  assumes "getAuthenticatedWebuserId P = Inr w" and "getDevices P w = Inr devices"
      and "\<not> truthy devices"
  shows "fst (callTool P ''get_devices'' args) = Inr (text_result (Some ''No devices available''))"
  using assms by (simp add: callTool_def tool_switch_def get_devices_def act_simps)

text \<open>
  Claim C5. For every provider result that is an empty or absent collection, each of
  \<^verbatim>\<open>get_phone_numbers\<close>, \<^verbatim>\<open>get_devices\<close> and \<^verbatim>\<open>get_call_history\<close> returns its fallback
  text in a success envelope: never an error, never the bare JSON text \<^verbatim>\<open>[]\<close>.

  An empty array is truthy, so the conditional takes the \<^verbatim>\<open>JSON.stringify\<close> branch.
  Evaluated at the provider whose collections are empty: all three tools answer with the
  text \<^verbatim>\<open>[]\<close>.
\<close>

theorem empty_collection_is_serialized:
  "fst (callTool provider_empty ''get_phone_numbers'' (JObj [])) = Inr (text_result (Some ''[]''))
   \<and> fst (callTool provider_empty ''get_devices'' (JObj [])) = Inr (text_result (Some ''[]''))
   \<and> fst (callTool provider_empty ''get_call_history'' (JObj [])) = Inr (text_result (Some ''[]''))"
  by (simp add: callTool_def tool_switch_def get_phone_numbers_def get_devices_def
        get_call_history_def provider_empty_def act_simps stringify_empty_array)

section \<open>Resource reads\<close>

subsection \<open>Requests and settled calls\<close>

lemma filter_keeps: "list_all Q xs \<Longrightarrow> list_all Q (filter R xs)"
  by (induction xs) auto

lemma map_of_list_all:
  "map_of xs i = Some p \<Longrightarrow> list_all (\<lambda>e. Q (snd e)) xs \<Longrightarrow> Q p"
  by (induction xs) (auto split: if_splits)

lemma filter_absent: "map_of xs i = None \<Longrightarrow> filter (\<lambda>e. fst e \<noteq> i) xs = xs"
  by (induction xs) (auto split: if_splits)

lemma serve_is_readResource:
  assumes "map_of (inflight s) i = None"
  shows "serve P i uri s =
           (Some (i, fst (readResource P uri (cachedResources s))),
            fst (snd (readResource P uri (cachedResources s))),
            s\<lparr>cachedResources := snd (snd (readResource P uri (cachedResources s)))\<rparr>)"
proof (cases "slot_truthy (cache_read (cachedResources s) uri)")
  case True
  then show ?thesis by (simp add: serve_def readResource_def)
next
  case False
  with assms show ?thesis
    by (auto simp: serve_def first_call_def readResource_def fetch_resource_def perform_def
          bnd_def throw_def filter_absent numeral_2_eq_2 split: sum.splits)
qed

lemma first_call_known: "first_call uri = Inr c \<Longrightarrow> uri \<in> set resource_uris"
  by (auto simp: first_call_def resource_uris_def split: if_splits)

lemma step_known_only:
  assumes "known_only s"
  shows "known_only (snd (snd (step e s)))"
proof (cases e)
  case (Request i u)
  with assms show ?thesis
    by (auto simp: known_only_def filter_keeps first_call_known split: sum.splits)
next
  case (Settle i r)
  show ?thesis
  proof (cases "map_of (inflight s) i")
    case None
    with assms Settle show ?thesis by simp
  next
    case (Some p)
    with assms have "p_uri p \<in> set resource_uris"
      unfolding known_only_def
      by (auto dest: map_of_list_all[where Q = "\<lambda>p. p_uri p \<in> set resource_uris"])
    with assms Settle Some show ?thesis
      by (auto simp: known_only_def filter_keeps split: sum.splits)
  qed
qed

lemma run_known_only: "known_only s \<Longrightarrow> known_only (run es s)"
  by (induction es arbitrary: s) (simp_all add: step_known_only)

subsection \<open>Unknown uris\<close>

text \<open>The \<^verbatim>\<open>InvalidRequest\<close> error for an unknown uri is thrown inside the \<^verbatim>\<open>try\<close>
  block whose \<^verbatim>\<open>catch\<close> wraps every error as \<^verbatim>\<open>InternalError\<close>. No provider call is
  made and the cache stays as it is. (A uri that names a member of \<^verbatim>\<open>Object.prototype\<close>
  does not get that far: the cache lookup finds the inherited member.)\<close>

lemma unknown_uri:
  assumes "uri \<notin> set resource_uris" and "c uri = None"
      and "uri \<notin> set object_prototype_members"
  shows "readResource P uri c =
           (Inl (McpError InternalError
                   (''Sipgate API error: MCP error -32600: Invalid URI: '' @ uri)), [], c)"
  using assms
  by (simp add: readResource_def cache_read_def fetch_resource_def resource_uris_def throw_def
        show_int_codes)

text \<open>Only the four resource uris are ever stored, so in every state the server can
  reach from \<open>idle\<close>, whatever requests overlap, an unknown uri has no entry.\<close>

lemma unknown_uri_in_any_reachable_cache:
  assumes "uri \<notin> set resource_uris" and "uri \<notin> set object_prototype_members"
  shows "step (Request i uri) (run es idle) =
           (Some (i, Inl (McpError InternalError
                            (''Sipgate API error: MCP error -32600: Invalid URI: '' @ uri))),
            [], run es idle)"
proof -
  have "known_only idle" by (simp add: known_only_def idle_def)
  then have "known_only (run es idle)" by (rule run_known_only)
  with assms(1) have "cachedResources (run es idle) uri = None"
    by (auto simp: known_only_def)
  with assms show ?thesis
    by (simp add: cache_read_def first_call_def resource_uris_def show_int_codes)
qed

lemma inherited_member_read:
  "readResource P ''constructor'' Map.empty =
     (Inr [ResourceContent ''constructor'' ''application/json'' None], [], Map.empty)"
  by (simp add: readResource_def cache_read_def object_prototype_members_def)

text \<open>
  Claim C4. For every uri outside the four resource uris, \<^verbatim>\<open>readResource(uri)\<close> fails
  with an \<^verbatim>\<open>InvalidRequest\<close> protocol error and performs no provider call.

  Evaluated at \<^verbatim>\<open>sipgate://foo\<close> on an empty cache: no provider call is made, but the
  error that reaches the caller is \<^verbatim>\<open>InternalError\<close>, with the \<^verbatim>\<open>InvalidRequest\<close> error
  quoted in its message.
\<close>

theorem unknown_uri_raises_InternalError:
  "readResource P ''sipgate://foo'' Map.empty =
     (Inl (McpError InternalError
             ''Sipgate API error: MCP error -32600: Invalid URI: sipgate://foo''),
      [], Map.empty)"
  by (simp add: unknown_uri resource_uris_def object_prototype_members_def)

subsection \<open>The cache\<close>

lemma readResource_hit:
  assumes "c uri = Some v" and "truthy v"
  shows "readResource P uri c =
           (Inr [ResourceContent uri ''application/json'' (stringify v)], [], c)"
  using assms by (simp add: readResource_def cache_read_def)

lemma is_document_truthy: "is_document v \<Longrightarrow> truthy v"
  by (cases v) simp_all

lemma step_hit:
  assumes "cachedResources s uri = Some v" and "truthy v"
  shows "step (Request i uri) s =
           (Some (i, Inr [ResourceContent uri ''application/json'' (stringify v)]), [], s)"
  using assms by (simp add: cache_read_def)

lemma step_keeps_entry:
  assumes "cachedResources s uri = Some v" and "truthy v" and "no_read_in_flight uri s"
  shows "cachedResources (snd (snd (step e s))) uri = Some v
         \<and> no_read_in_flight uri (snd (snd (step e s)))"
proof (cases e)
  case (Request i u)
  show ?thesis
  proof (cases "u = uri")
    case True
    with assms Request show ?thesis by (simp add: cache_read_def)
  next
    case False
    with assms Request show ?thesis
      by (auto simp: no_read_in_flight_def filter_keeps split: sum.splits)
  qed
next
  case (Settle i r)
  show ?thesis
  proof (cases "map_of (inflight s) i")
    case None
    with assms Settle show ?thesis by simp
  next
    case (Some p)
    with assms(3) have "p_uri p \<noteq> uri"
      unfolding no_read_in_flight_def
      by (auto dest: map_of_list_all[where Q = "\<lambda>p. p_uri p \<noteq> uri"])
    with assms Settle Some show ?thesis
      by (auto simp: no_read_in_flight_def filter_keeps split: sum.splits)
  qed
qed

lemma run_keeps_entry:
  "cachedResources s uri = Some v \<Longrightarrow> truthy v \<Longrightarrow> no_read_in_flight uri s
   \<Longrightarrow> cachedResources (run es s) uri = Some v \<and> no_read_in_flight uri (run es s)"
proof (induction es arbitrary: s)
  case Nil
  then show ?case by simp
next
  case (Cons e es)
  from Cons.prems have "cachedResources (snd (snd (step e s))) uri = Some v
         \<and> no_read_in_flight uri (snd (snd (step e s)))"
    by (rule step_keeps_entry)
  with Cons.IH[of "snd (snd (step e s))"] Cons.prems(2) show ?case by simp
qed

text \<open>What overlapping reads do: a read that misses calls the provider whether or not
  another read of the same uri is pending, and a read whose last call resolves stores
  the value and answers with it, whatever the cache holds by then.\<close>

lemma miss_calls_provider:
  assumes "cachedResources s uri = None" and "uri \<notin> set object_prototype_members"
      and "first_call uri = Inr c"
  shows "step (Request i uri) s =
           (None, [c],
            s\<lparr>inflight := (i, Pending uri c) # filter (\<lambda>e. fst e \<noteq> i) (inflight s)\<rparr>)"
  using assms by (simp add: cache_read_def)

lemma settled_read_stores:
  assumes "map_of (inflight s) i = Some (Pending uri c)" and "c \<noteq> GetAuthenticatedWebuserId"
  shows "step (Settle i (Inr v)) s =
           (Some (i, Inr [ResourceContent uri ''application/json'' (stringify v)]), [],
            s\<lparr>cachedResources := (cachedResources s)(uri \<mapsto> v),
              inflight := filter (\<lambda>e. fst e \<noteq> i) (inflight s)\<rparr>)"
  using assms by simp

text \<open>
  Claim C3. Once a value for a uri is present in the resource cache, every subsequent
  \<^verbatim>\<open>readResource(uri)\<close> in the same process returns that value verbatim (byte-identical
  JSON text) without contacting the provider, so at most one provider round-trip occurs
  per distinct uri per process lifetime, even if the provider's data changes.

  The handler takes no lock between its cache test and its store. Two reads of the
  account arrive before either provider call has settled: both miss, both call the
  provider. The first settles and stores its document; the second settles later, with
  the provider's newer document, stores it over the first and answers with it; a third
  read then gets the newer text. So a value that was present is replaced, and the uri
  cost two provider round-trips.
\<close>

theorem overlapping_reads_replace_entry:
  "fst (snd (step (Request 1 ''sipgate://account'') idle)) = [ClientGet ''/account'']
   \<and> fst (snd (step (Request 2 ''sipgate://account'')
                  (run [Request 1 ''sipgate://account''] idle))) = [ClientGet ''/account'']
   \<and> fst (step (Settle 1 (Inr (JObj [(''company'', JStr ''sipgate'')])))
            (run [Request 1 ''sipgate://account'', Request 2 ''sipgate://account''] idle))
      = Some (1, Inr [ResourceContent ''sipgate://account'' ''application/json''
                        (Some (''{'' @ [CHR 0x0A] @ ''  '' @ [CHR 0x22] @ ''company'' @ [CHR 0x22]
                               @ '': '' @ [CHR 0x22] @ ''sipgate'' @ [CHR 0x22] @ [CHR 0x0A]
                               @ ''}''))])
   \<and> cachedResources
        (run [Request 1 ''sipgate://account'', Request 2 ''sipgate://account'',
              Settle 1 (Inr (JObj [(''company'', JStr ''sipgate'')]))] idle)
        ''sipgate://account'' = Some (JObj [(''company'', JStr ''sipgate'')])
   \<and> fst (step (Settle 2 (Inr (JObj [(''company'', JStr ''acme'')])))
            (run [Request 1 ''sipgate://account'', Request 2 ''sipgate://account'',
                  Settle 1 (Inr (JObj [(''company'', JStr ''sipgate'')]))] idle))
      = Some (2, Inr [ResourceContent ''sipgate://account'' ''application/json''
                        (Some (''{'' @ [CHR 0x0A] @ ''  '' @ [CHR 0x22] @ ''company'' @ [CHR 0x22]
                               @ '': '' @ [CHR 0x22] @ ''acme'' @ [CHR 0x22] @ [CHR 0x0A]
                               @ ''}''))])
   \<and> step (Request 3 ''sipgate://account'')
        (run [Request 1 ''sipgate://account'', Request 2 ''sipgate://account'',
              Settle 1 (Inr (JObj [(''company'', JStr ''sipgate'')])),
              Settle 2 (Inr (JObj [(''company'', JStr ''acme'')]))] idle)
      = (Some (3, Inr [ResourceContent ''sipgate://account'' ''application/json''
                         (Some (''{'' @ [CHR 0x0A] @ ''  '' @ [CHR 0x22] @ ''company'' @ [CHR 0x22]
                                @ '': '' @ [CHR 0x22] @ ''acme'' @ [CHR 0x22] @ [CHR 0x0A]
                                @ ''}''))]),
         [],
         \<lparr>cachedResources = [''sipgate://account'' \<mapsto> JObj [(''company'', JStr ''acme'')]],
            inflight = []\<rparr>)"
  by (simp add: idle_def cache_read_def object_prototype_members_def first_call_def
        stringify_def nl_def pad_Suc quote_def quote_char_def)

text \<open>
  Claim C3, amended. Once a JSON object or array is stored for a uri and no read of that
  uri is pending, every read of that uri from then on is answered with the serialization
  of that value, without a provider call and without a change of the server, whatever
  requests arrive and whatever provider calls settle in between, with whatever results.
\<close>

theorem settled_entry_is_served:
  assumes "cachedResources s uri = Some v" and "is_document v" and "no_read_in_flight uri s"
  shows "step (Request i uri) (run es s) =
           (Some (i, Inr [ResourceContent uri ''application/json'' (stringify v)]), [], run es s)"
proof -
  from assms(2) have t: "truthy v" by (rule is_document_truthy)
  with assms(1) assms(3) have "cachedResources (run es s) uri = Some v"
    by (simp add: run_keeps_entry)
  then show ?thesis using t by (rule step_hit)
qed

text \<open>The account is read and stored. Then reads of the devices and of the numbers
  overlap, the provider fails for one of them, and the account is read again: it is
  answered from the cache with the text of the first read.\<close>

theorem settled_entry_is_served_witness:
  "fst (step (Settle 1 (Inr (JObj [(''company'', JStr ''sipgate'')])))
          (run [Request 1 ''sipgate://account''] idle))
     = Some (1, Inr [ResourceContent ''sipgate://account'' ''application/json''
                       (stringify (JObj [(''company'', JStr ''sipgate'')]))])
   \<and> step (Request 4 ''sipgate://account'')
        (run [Request 2 ''sipgate://devices'', Request 3 ''sipgate://numbers'',
              Settle 2 (Inr (JStr ''w0'')), Settle 3 (Inl ''Network Error''),
              Settle 2 (Inr (JArr [JObj [(''id'', JStr ''e0'')]]))]
           (run [Request 1 ''sipgate://account'',
                 Settle 1 (Inr (JObj [(''company'', JStr ''sipgate'')]))] idle))
     = (Some (4, Inr [ResourceContent ''sipgate://account'' ''application/json''
                        (stringify (JObj [(''company'', JStr ''sipgate'')]))]),
        [],
        run [Request 2 ''sipgate://devices'', Request 3 ''sipgate://numbers'',
             Settle 2 (Inr (JStr ''w0'')), Settle 3 (Inl ''Network Error''),
             Settle 2 (Inr (JArr [JObj [(''id'', JStr ''e0'')]]))]
          (run [Request 1 ''sipgate://account'',
                Settle 1 (Inr (JObj [(''company'', JStr ''sipgate'')]))] idle))"
proof -
  have served: "step (Request 4 ''sipgate://account'')
        (run [Request 2 ''sipgate://devices'', Request 3 ''sipgate://numbers'',
              Settle 2 (Inr (JStr ''w0'')), Settle 3 (Inl ''Network Error''),
              Settle 2 (Inr (JArr [JObj [(''id'', JStr ''e0'')]]))]
           (run [Request 1 ''sipgate://account'',
                 Settle 1 (Inr (JObj [(''company'', JStr ''sipgate'')]))] idle))
     = (Some (4, Inr [ResourceContent ''sipgate://account'' ''application/json''
                        (stringify (JObj [(''company'', JStr ''sipgate'')]))]),
        [],
        run [Request 2 ''sipgate://devices'', Request 3 ''sipgate://numbers'',
             Settle 2 (Inr (JStr ''w0'')), Settle 3 (Inl ''Network Error''),
             Settle 2 (Inr (JArr [JObj [(''id'', JStr ''e0'')]]))]
          (run [Request 1 ''sipgate://account'',
                Settle 1 (Inr (JObj [(''company'', JStr ''sipgate'')]))] idle))"
    by (rule settled_entry_is_served[where v = "JObj [(''company'', JStr ''sipgate'')]"])
       (simp_all add: idle_def cache_read_def object_prototype_members_def first_call_def
          no_read_in_flight_def)
  have first: "fst (step (Settle 1 (Inr (JObj [(''company'', JStr ''sipgate'')])))
          (run [Request 1 ''sipgate://account''] idle))
     = Some (1, Inr [ResourceContent ''sipgate://account'' ''application/json''
                       (stringify (JObj [(''company'', JStr ''sipgate'')]))])"
    by (simp add: idle_def cache_read_def object_prototype_members_def first_call_def)
  from first served show ?thesis by (rule conjI)
qed

subsection \<open>Provider failures\<close>

lemma fetch_resource_failure:
  assumes "fetch_resource P uri = (r, t)" and "(c, Inl m) \<in> set t"
  shows "r = Inl (Error m)"
  using assms
  by (auto simp: fetch_resource_def perform_def bnd_def throw_def split: if_splits sum.splits)

text \<open>
  Claim C9. For every \<^verbatim>\<open>readResource(uri)\<close> on a known uri whose provider call fails,
  the read fails with an \<^verbatim>\<open>InternalError\<close> protocol error wrapping the provider's message
  (not an \<^verbatim>\<open>isError\<close> envelope), and the resource cache is left unchanged.

  In the model: if any provider call made by the read rejected with message \<open>m\<close>, the
  read throws \<^verbatim>\<open>McpError(InternalError, "Sipgate API error: " + m)\<close> and the cache after
  the read is the cache before it.
\<close>

theorem failed_read_raises_InternalError:
  assumes "(c, Inl m) \<in> set (fst (snd (readResource P uri cache)))"
  shows "fst (readResource P uri cache)
           = Inl (McpError InternalError (''Sipgate API error: '' @ m))
         \<and> snd (snd (readResource P uri cache)) = cache"
proof (cases "slot_truthy (cache_read cache uri)")
  case True
  with assms show ?thesis by (simp add: readResource_def)
next
  case False
  obtain r t where f: "fetch_resource P uri = (r, t)" by (cases "fetch_resource P uri")
  with assms False have "(c, Inl m) \<in> set t"
    by (cases r) (simp_all add: readResource_def)
  with f have "r = Inl (Error m)" by (rule fetch_resource_failure)
  with f False show ?thesis by (simp add: readResource_def)
qed

text \<open>The devices, read while the provider is down: the first of the two calls rejects.\<close>

theorem failed_read_raises_InternalError_witness:
  "fst (readResource provider_down ''sipgate://devices'' Map.empty)
     = Inl (McpError InternalError (''Sipgate API error: '' @ ''Network Error''))
   \<and> snd (snd (readResource provider_down ''sipgate://devices'' Map.empty)) = Map.empty"
proof -
  have "(GetAuthenticatedWebuserId, Inl ''Network Error'')
          \<in> set (fst (snd (readResource provider_down ''sipgate://devices'' Map.empty)))"
    by (simp add: readResource_def cache_read_def object_prototype_members_def
          fetch_resource_def perform_def bnd_def provider_down_def)
  then show ?thesis by (rule failed_read_raises_InternalError)
qed

section \<open>Call history defaults\<close>

text \<open>For every arguments object that supplies neither \<^verbatim>\<open>limit\<close> nor \<^verbatim>\<open>types\<close> (the
  empty object \<^verbatim>\<open>{}\<close> among them) the defaults apply: the invocation makes exactly one
  provider call, \<^verbatim>\<open>fetchAll\<close> with limit 10 and the four types, and a truthy result comes
  back serialized in a success envelope.\<close>

lemma get_call_history_defaults:
  assumes "get_prop args ''limit'' = Inr JUndefined" and "get_prop args ''types'' = Inr JUndefined"
  shows "snd (callTool P ''get_call_history'' args) =
     [(FetchAll (JObj [(''limit'', JNum 10),
                       (''types'', JArr [JStr ''CALL'', JStr ''VOICEMAIL'', JStr ''FAX'', JStr ''SMS''])]),
       fetchAll P (JObj [(''limit'', JNum 10),
                         (''types'', JArr [JStr ''CALL'', JStr ''VOICEMAIL'', JStr ''FAX'', JStr ''SMS''])]))]
   \<and> (\<forall>h. fetchAll P (JObj [(''limit'', JNum 10),
                             (''types'', JArr [JStr ''CALL'', JStr ''VOICEMAIL'', JStr ''FAX'', JStr ''SMS''])])
             = Inr h \<and> truthy h
          \<longrightarrow> fst (callTool P ''get_call_history'' args) = Inr (text_result (stringify h)))"
proof (cases "fetchAll P (JObj [(''limit'', JNum 10), (''types'', default_types)])")
  case (Inl m)
  with assms show ?thesis
    by (simp add: callTool_def tool_switch_def get_call_history_def act_simps default_types_def)
next
  case (Inr h)
  with assms show ?thesis
    by (simp add: callTool_def tool_switch_def get_call_history_def act_simps default_types_def)
qed

lemma get_call_history_defaults_example:
  "callTool provider_up ''get_call_history'' (JObj []) =
     (Inr \<lparr>content =
              [TextContent
                 (Some (''['' @ [CHR 0x0A] @ ''  {'' @ [CHR 0x0A] @ ''    '' @ [CHR 0x22] @ ''type''
                        @ [CHR 0x22] @ '': '' @ [CHR 0x22] @ ''CALL'' @ [CHR 0x22] @ [CHR 0x0A]
                        @ ''  }'' @ [CHR 0x0A] @ '']''))],
            isError = None\<rparr>,
      [(FetchAll (JObj [(''limit'', JNum 10),
                        (''types'', JArr [JStr ''CALL'', JStr ''VOICEMAIL'', JStr ''FAX'', JStr ''SMS''])]),
        Inr (JArr [JObj [(''type'', JStr ''CALL'')]]))])"
  by (simp add: callTool_def tool_switch_def get_call_history_def act_simps default_types_def
        provider_up_def text_result_def stringify_def nl_def pad_Suc quote_def quote_char_def)

text \<open>
  Claim C10. For every \<^verbatim>\<open>get_call_history\<close> invocation with no arguments supplied, the
  history filter passed to the provider uses limit 10 and all four history types
  \<^verbatim>\<open>[CALL, VOICEMAIL, FAX, SMS]\<close>, and the call succeeds with the provider's result
  serialized as JSON text.

  The tool has no required argument and the request schema makes the \<^verbatim>\<open>arguments\<close>
  member optional, so a call with no arguments may leave the member out. Evaluated
  there: \<^verbatim>\<open>args\<close> is \<^verbatim>\<open>undefined\<close>, \<^verbatim>\<open>args.limit\<close> throws a \<^verbatim>\<open>TypeError\<close> before the
  defaults are reached, and the outer \<^verbatim>\<open>catch\<close> returns an error envelope; the provider
  is not called.
\<close>

theorem get_call_history_without_arguments_member:
  "callTool P ''get_call_history'' JUndefined =
     (Inr \<lparr>content =
              [TextContent
                 (Some (''Sipgate API error: Cannot read properties of undefined (reading ''
                        @ [CHR 0x27] @ ''limit'' @ [CHR 0x27] @ '')''))],
            isError = Some True\<rparr>,
      [])"
  by (simp add: callTool_def tool_switch_def get_call_history_def act_simps error_result_def)

section \<open>Sending an SMS\<close>

text \<open>The provider calls of a \<^verbatim>\<open>send_sms\<close> invocation that reaches \<^verbatim>\<open>smsModule.send\<close>:
  the recipient is a non-empty string, the message is truthy, the user id and the
  extensions are resolved, and the first extension is an object or another value with
  properties.\<close>

lemma send_sms_trace:
  assumes "get_prop args ''recipient'' = Inr (JStr r)" and "r \<noteq> []"
      and "get_prop args ''message'' = Inr msg" and "truthy msg"
      and "getAuthenticatedWebuserId P = Inr w"
      and "client_get P (''/'' @ to_str w @ ''/sms'') = Inr resp"
      and "get_prop resp ''items'' = Inr (JArr (ext # rest))"
      and "get_prop ext ''id'' = Inr i"
  shows "snd (send_sms P args) =
           [(GetAuthenticatedWebuserId, Inr w),
            (ClientGet (''/'' @ to_str w @ ''/sms''), Inr resp),
            (SmsSend (JObj [(''smsId'', i), (''to'', JStr (filter (\<lambda>c. \<not> is_space c) r)),
                            (''message'', msg)]),
             sms_send P (JObj [(''smsId'', i), (''to'', JStr (filter (\<lambda>c. \<not> is_space c) r)),
                               (''message'', msg)]))]"
proof (cases "sms_send P (JObj [(''smsId'', i), (''to'', JStr (filter (\<lambda>c. \<not> is_space c) r)),
                               (''message'', msg)])")
  case (Inl m)
  with assms show ?thesis
    by (simp add: send_sms_def act_simps)
next
  case (Inr v)
  with assms show ?thesis
    by (simp add: send_sms_def act_simps)
qed

lemma send_sms_no_extension:
  assumes "get_prop args ''recipient'' = Inr (JStr r)" and "r \<noteq> []"
      and "get_prop args ''message'' = Inr msg" and "truthy msg"
      and "getAuthenticatedWebuserId P = Inr w"
      and "client_get P (''/'' @ to_str w @ ''/sms'') = Inr resp"
      and "get_prop resp ''items'' = Inr (JArr [])"
  shows "send_sms P args =
           (Inl (McpError InternalError
                   ''SMS sending failed: MCP error -32603: No SMS extensions available for this account''),
            [(GetAuthenticatedWebuserId, Inr w),
             (ClientGet (''/'' @ to_str w @ ''/sms''), Inr resp)])"
  using assms by (simp add: send_sms_def act_simps show_int_codes)

text \<open>
  Claim C7. For every \<^verbatim>\<open>send_sms\<close> invocation and every non-empty extensions list
  returned by the provider for the authenticated user, the extension used for sending is
  the first entry of that list, regardless of the caller-supplied \<^verbatim>\<open>smsId\<close>; if the
  list is empty, the call fails with \<^verbatim>\<open>InternalError\<close> and no SMS is sent.

  In the model, for arguments with a non-empty string \<^verbatim>\<open>recipient\<close> and a truthy
  \<^verbatim>\<open>message\<close> and whatever else (an \<^verbatim>\<open>smsId\<close> or none): with an empty list the
  handler body throws \<^verbatim>\<open>InternalError\<close>, which the dispatcher reports as an error
  envelope, and the provider calls are the two lookups; with a list \<open>ext # rest\<close> whose
  first entry can be read (it is not \<^verbatim>\<open>null\<close>) the third provider call is
  \<^verbatim>\<open>smsModule.send\<close> with \<^verbatim>\<open>smsId\<close> the \<^verbatim>\<open>id\<close> of \<open>ext\<close>.
\<close>

theorem send_sms_uses_first_extension:
  assumes "get_prop args ''recipient'' = Inr (JStr r)" and "r \<noteq> []"
      and "get_prop args ''message'' = Inr msg" and "truthy msg"
      and "getAuthenticatedWebuserId P = Inr w"
      and "client_get P (''/'' @ to_str w @ ''/sms'') = Inr resp"
      and "get_prop resp ''items'' = Inr (JArr exts)"
  shows "(exts = [] \<longrightarrow>
            fst (send_sms P args) =
              Inl (McpError InternalError
                     ''SMS sending failed: MCP error -32603: No SMS extensions available for this account'')
            \<and> fst (callTool P ''send_sms'' args) =
              Inr (error_result
                     ''Sipgate API error: MCP error -32603: SMS sending failed: MCP error -32603: No SMS extensions available for this account'')
            \<and> snd (callTool P ''send_sms'' args) =
              [(GetAuthenticatedWebuserId, Inr w),
               (ClientGet (''/'' @ to_str w @ ''/sms''), Inr resp)])
       \<and> (\<forall>ext rest i. exts = ext # rest \<and> get_prop ext ''id'' = Inr i \<longrightarrow>
            (\<exists>to out. snd (callTool P ''send_sms'' args) =
               [(GetAuthenticatedWebuserId, Inr w),
                (ClientGet (''/'' @ to_str w @ ''/sms''), Inr resp),
                (SmsSend (JObj [(''smsId'', i), (''to'', to), (''message'', msg)]), out)]))"
proof (intro conjI impI allI)
  assume e: "exts = []"
  with assms have s: "send_sms P args =
           (Inl (McpError InternalError
                   ''SMS sending failed: MCP error -32603: No SMS extensions available for this account''),
            [(GetAuthenticatedWebuserId, Inr w),
             (ClientGet (''/'' @ to_str w @ ''/sms''), Inr resp)])"
    by (simp add: send_sms_no_extension)
  then show "fst (send_sms P args) =
              Inl (McpError InternalError
                     ''SMS sending failed: MCP error -32603: No SMS extensions available for this account'')"
    by simp
  from s show "fst (callTool P ''send_sms'' args) =
              Inr (error_result
                     ''Sipgate API error: MCP error -32603: SMS sending failed: MCP error -32603: No SMS extensions available for this account'')"
    by (simp add: callTool_def tool_switch_def act_simps show_int_codes)
  from s show "snd (callTool P ''send_sms'' args) =
              [(GetAuthenticatedWebuserId, Inr w),
               (ClientGet (''/'' @ to_str w @ ''/sms''), Inr resp)]"
    by (simp add: callTool_trace tool_switch_def)
next
  fix ext rest i
  assume "exts = ext # rest \<and> get_prop ext ''id'' = Inr i"
  with assms have "snd (send_sms P args) =
           [(GetAuthenticatedWebuserId, Inr w),
            (ClientGet (''/'' @ to_str w @ ''/sms''), Inr resp),
            (SmsSend (JObj [(''smsId'', i), (''to'', JStr (filter (\<lambda>c. \<not> is_space c) r)),
                            (''message'', msg)]),
             sms_send P (JObj [(''smsId'', i), (''to'', JStr (filter (\<lambda>c. \<not> is_space c) r)),
                               (''message'', msg)]))]"
    by (simp add: send_sms_trace)
  then show "\<exists>to out. snd (callTool P ''send_sms'' args) =
               [(GetAuthenticatedWebuserId, Inr w),
                (ClientGet (''/'' @ to_str w @ ''/sms''), Inr resp),
                (SmsSend (JObj [(''smsId'', i), (''to'', to), (''message'', msg)]), out)]"
    by (simp add: callTool_trace tool_switch_def)
qed

text \<open>The caller asks for \<^verbatim>\<open>s1\<close>; the provider lists \<^verbatim>\<open>s0\<close> first; \<^verbatim>\<open>s0\<close> is
  used.\<close>

theorem send_sms_uses_first_extension_witness:
  "\<exists>to out.
     snd (callTool provider_up ''send_sms''
            (JObj [(''smsId'', JStr ''s1''), (''recipient'', JStr ''+49 151 2345 6789''),
                   (''message'', JStr ''hi'')])) =
       [(GetAuthenticatedWebuserId, Inr (JStr ''w0'')),
        (ClientGet ''/w0/sms'',
         Inr (JObj [(''items'', JArr [JObj [(''id'', JStr ''s0'')], JObj [(''id'', JStr ''s1'')]])])),
        (SmsSend (JObj [(''smsId'', JStr ''s0''), (''to'', to), (''message'', JStr ''hi'')]), out)]"
proof -
  have "\<forall>ext rest i.
          [JObj [(''id'', JStr ''s0'')], JObj [(''id'', JStr ''s1'')]] = ext # rest
            \<and> get_prop ext ''id'' = Inr i \<longrightarrow>
          (\<exists>to out.
             snd (callTool provider_up ''send_sms''
                    (JObj [(''smsId'', JStr ''s1''), (''recipient'', JStr ''+49 151 2345 6789''),
                           (''message'', JStr ''hi'')])) =
               [(GetAuthenticatedWebuserId, Inr (JStr ''w0'')),
                (ClientGet (''/'' @ to_str (JStr ''w0'') @ ''/sms''),
                 Inr (JObj [(''items'',
                             JArr [JObj [(''id'', JStr ''s0'')], JObj [(''id'', JStr ''s1'')]])])),
                (SmsSend (JObj [(''smsId'', i), (''to'', to), (''message'', JStr ''hi'')]), out)])"
    by (rule send_sms_uses_first_extension
              [where r = "''+49 151 2345 6789''" and msg = "JStr ''hi''" and P = provider_up
                 and exts = "[JObj [(''id'', JStr ''s0'')], JObj [(''id'', JStr ''s1'')]]",
               THEN conjunct2])
       (simp_all add: provider_up_def)
  then show ?thesis
    by simp
qed

text \<open>
  Claim C8. For every \<^verbatim>\<open>send_sms\<close> invocation, every whitespace character is stripped
  from the caller-supplied recipient string before it is forwarded to the provider
  (\<^verbatim>\<open>+49 151 2345 6789\<close> is forwarded as \<^verbatim>\<open>+4915123456789\<close>).

  In the model: the \<^verbatim>\<open>to\<close> of the data passed to \<^verbatim>\<open>smsModule.send\<close> is the recipient
  without its whitespace characters, and holds none.
\<close>

theorem send_sms_strips_whitespace:
  assumes "get_prop args ''recipient'' = Inr (JStr r)" and "r \<noteq> []"
      and "get_prop args ''message'' = Inr msg" and "truthy msg"
      and "getAuthenticatedWebuserId P = Inr w"
      and "client_get P (''/'' @ to_str w @ ''/sms'') = Inr resp"
      and "get_prop resp ''items'' = Inr (JArr (ext # rest))"
      and "get_prop ext ''id'' = Inr i"
  shows "\<exists>data out to.
           snd (callTool P ''send_sms'' args) =
             [(GetAuthenticatedWebuserId, Inr w),
              (ClientGet (''/'' @ to_str w @ ''/sms''), Inr resp),
              (SmsSend data, out)]
           \<and> get_prop data ''to'' = Inr (JStr to)
           \<and> to = filter (\<lambda>c. \<not> is_space c) r
           \<and> list_all (\<lambda>c. \<not> is_space c) to"
proof -
  from assms have "snd (callTool P ''send_sms'' args) =
           [(GetAuthenticatedWebuserId, Inr w),
            (ClientGet (''/'' @ to_str w @ ''/sms''), Inr resp),
            (SmsSend (JObj [(''smsId'', i), (''to'', JStr (filter (\<lambda>c. \<not> is_space c) r)),
                            (''message'', msg)]),
             sms_send P (JObj [(''smsId'', i), (''to'', JStr (filter (\<lambda>c. \<not> is_space c) r)),
                               (''message'', msg)]))]"
    by (simp add: callTool_trace tool_switch_def send_sms_trace)
  then show ?thesis
    by (simp add: list_all_iff)
qed

theorem send_sms_strips_whitespace_witness:
  "\<exists>data out.
     snd (callTool provider_up ''send_sms''
            (JObj [(''smsId'', JStr ''s1''), (''recipient'', JStr ''+49 151 2345 6789''),
                   (''message'', JStr ''hi'')])) =
       [(GetAuthenticatedWebuserId, Inr (JStr ''w0'')),
        (ClientGet ''/w0/sms'',
         Inr (JObj [(''items'', JArr [JObj [(''id'', JStr ''s0'')], JObj [(''id'', JStr ''s1'')]])])),
        (SmsSend data, out)]
     \<and> get_prop data ''to'' = Inr (JStr ''+4915123456789'')"
proof -
  have "\<exists>data out to.
           snd (callTool provider_up ''send_sms''
                  (JObj [(''smsId'', JStr ''s1''), (''recipient'', JStr ''+49 151 2345 6789''),
                         (''message'', JStr ''hi'')])) =
             [(GetAuthenticatedWebuserId, Inr (JStr ''w0'')),
              (ClientGet (''/'' @ to_str (JStr ''w0'') @ ''/sms''),
               Inr (JObj [(''items'', JArr [JObj [(''id'', JStr ''s0'')], JObj [(''id'', JStr ''s1'')]])])),
              (SmsSend data, out)]
           \<and> get_prop data ''to'' = Inr (JStr to)
           \<and> to = filter (\<lambda>c. \<not> is_space c) ''+49 151 2345 6789''
           \<and> list_all (\<lambda>c. \<not> is_space c) to"
    by (rule send_sms_strips_whitespace[where msg = "JStr ''hi''" and i = "JStr ''s0''"
              and ext = "JObj [(''id'', JStr ''s0'')]" and rest = "[JObj [(''id'', JStr ''s1'')]]"])
       (simp_all add: provider_up_def)
  then show ?thesis
    by (simp add: is_space_def)
qed

end
